theory Spec2Isabelle
  imports Complex_Main "HOL-Library.Multiset"
begin

section \<open>School directory service: validation, distance and proximity ranking\<close>

text \<open>
  The development embeds \<^verbatim>\<open>src/app.js\<close>: the Haversine distance
  \<^verbatim>\<open>calculateDistance\<close>, the validator \<^verbatim>\<open>validateSchoolData\<close> and the two
  request handlers \<^verbatim>\<open>POST /addSchool\<close> and \<^verbatim>\<open>GET /listSchools\<close>.

  Numbers. A JavaScript number is an IEEE-754 double: \<open>NaN\<close>, \<open>+Infinity\<close>,
  \<open>-Infinity\<close> or a finite value, which the model gives as a real; the two zeros \<open>+0\<close>
  and \<open>-0\<close> are one value. Reading a number from a text rounds it to the nearest double
  (\<open>to_double\<close> below), as the program does. The arithmetic inside
  \<open>calculateDistance\<close> is exact: the model does not round the result of an operation to
  a double, and \<^verbatim>\<open>Math.sin\<close>, \<^verbatim>\<open>Math.cos\<close>, \<^verbatim>\<open>Math.sqrt\<close> and
  \<^verbatim>\<open>Math.atan2\<close> are the mathematical functions, where an engine gives approximations.

  What this leaves out. On doubles the value of the source's variable \<^verbatim>\<open>a\<close> can come
  out one unit in the last place above 1 when the two points are antipodal: then
  \<^verbatim>\<open>Math.sqrt(1 - a)\<close> is \<open>NaN\<close> and so is the distance, since the source does not clamp
  \<^verbatim>\<open>a\<close> to \<open>[0, 1]\<close>. In exact arithmetic \<^verbatim>\<open>a\<close> never exceeds 1 for valid
  latitudes, so the model cannot show that \<open>NaN\<close>, and nothing below states the numeric
  value of a distance between distinct points or the order of a listing. What is proved of
  \<open>calculateDistance\<close> uses only steps that are the same on doubles: the difference
  of equal numbers, products with zero, the oddness of the sine and the commutativity of
  the product.

  Requests. The body of a registration and the query of a listing are objects, and the
  handlers read their fields; a field that is absent reads as \<^verbatim>\<open>undefined\<close>.
\<close>

subsection \<open>JavaScript numbers\<close>

datatype jsnum = NaN | NegInf | Fin real | PosInf

fun isNaN :: "jsnum \<Rightarrow> bool" where
  "isNaN NaN = True"
| "isNaN _ = False"

text \<open>\<^verbatim>\<open>a < b\<close> on numbers: false as soon as one side is \<open>NaN\<close>.\<close>

fun js_lt :: "jsnum \<Rightarrow> jsnum \<Rightarrow> bool" where
  "js_lt NaN _ = False"
| "js_lt _ NaN = False"
| "js_lt (Fin x) (Fin y) = (x < y)"
| "js_lt NegInf NegInf = False"
| "js_lt NegInf _ = True"
| "js_lt _ NegInf = False"
| "js_lt PosInf _ = False"
| "js_lt _ PosInf = True"

definition js_gt :: "jsnum \<Rightarrow> jsnum \<Rightarrow> bool" where
  "js_gt a b = js_lt b a"

fun js_neg :: "jsnum \<Rightarrow> jsnum" where
  "js_neg NaN = NaN"
| "js_neg NegInf = PosInf"
| "js_neg PosInf = NegInf"
| "js_neg (Fin x) = Fin (- x)"

fun js_add :: "jsnum \<Rightarrow> jsnum \<Rightarrow> jsnum" where
  "js_add NaN _ = NaN"
| "js_add _ NaN = NaN"
| "js_add (Fin x) (Fin y) = Fin (x + y)"
| "js_add PosInf NegInf = NaN"
| "js_add NegInf PosInf = NaN"
| "js_add PosInf _ = PosInf"
| "js_add _ PosInf = PosInf"
| "js_add NegInf _ = NegInf"
| "js_add _ NegInf = NegInf"

text \<open>\<^verbatim>\<open>a - b\<close> is \<^verbatim>\<open>a + (-b)\<close>.\<close>

definition js_sub :: "jsnum \<Rightarrow> jsnum \<Rightarrow> jsnum" where
  "js_sub a b = js_add a (js_neg b)"

text \<open>The sign of a number that is not \<open>NaN\<close>: \<open>-1\<close>, \<open>0\<close> or \<open>1\<close>.\<close>

fun js_sign :: "jsnum \<Rightarrow> int" where
  "js_sign NaN = 0"
| "js_sign NegInf = - 1"
| "js_sign PosInf = 1"
| "js_sign (Fin x) = (if x < 0 then - 1 else if x = 0 then 0 else 1)"

definition signed_inf :: "int \<Rightarrow> jsnum" where
  "signed_inf s = (if s < 0 then NegInf else PosInf)"

fun js_mul :: "jsnum \<Rightarrow> jsnum \<Rightarrow> jsnum" where
  "js_mul NaN _ = NaN"
| "js_mul _ NaN = NaN"
| "js_mul (Fin x) (Fin y) = Fin (x * y)"
| "js_mul a b =
     (if js_sign a * js_sign b = 0 then NaN else signed_inf (js_sign a * js_sign b))"

fun js_div :: "jsnum \<Rightarrow> jsnum \<Rightarrow> jsnum" where
  "js_div NaN _ = NaN"
| "js_div _ NaN = NaN"
| "js_div (Fin x) (Fin y) =
     (if y = 0 then (if x = 0 then NaN else signed_inf (js_sign (Fin x))) else Fin (x / y))"
| "js_div (Fin x) _ = Fin 0"
| "js_div a (Fin y) = signed_inf (js_sign a * (if y < 0 then - 1 else 1))"
| "js_div _ _ = NaN"

definition Math_PI :: jsnum where
  "Math_PI = Fin pi"

fun Math_sin :: "jsnum \<Rightarrow> jsnum" where
  "Math_sin (Fin x) = Fin (sin x)"
| "Math_sin _ = NaN"

fun Math_cos :: "jsnum \<Rightarrow> jsnum" where
  "Math_cos (Fin x) = Fin (cos x)"
| "Math_cos _ = NaN"

fun Math_sqrt :: "jsnum \<Rightarrow> jsnum" where
  "Math_sqrt (Fin x) = (if x < 0 then NaN else Fin (sqrt x))"
| "Math_sqrt PosInf = PosInf"
| "Math_sqrt _ = NaN"

text \<open>
  The angle of the point \<open>(x, y)\<close>, in \<open>(-\<pi>, \<pi>]\<close>, as \<^verbatim>\<open>Math.atan2(y, x)\<close>
  and the \<open>atan2\<close> of the specification's formula give it.
\<close>

definition atan2 :: "real \<Rightarrow> real \<Rightarrow> real" where
  "atan2 y x =
     (if 0 < x then arctan (y / x)
      else if x < 0 then (if 0 \<le> y then arctan (y / x) + pi else arctan (y / x) - pi)
      else if 0 < y then pi / 2
      else if y < 0 then - (pi / 2)
      else 0)"

fun Math_atan2 :: "jsnum \<Rightarrow> jsnum \<Rightarrow> jsnum" where
  "Math_atan2 NaN _ = NaN"
| "Math_atan2 _ NaN = NaN"
| "Math_atan2 (Fin y) (Fin x) = Fin (atan2 y x)"
| "Math_atan2 (Fin y) PosInf = Fin 0"
| "Math_atan2 (Fin y) NegInf = (if 0 \<le> y then Fin pi else Fin (- pi))"
| "Math_atan2 PosInf (Fin x) = Fin (pi / 2)"
| "Math_atan2 NegInf (Fin x) = Fin (- (pi / 2))"
| "Math_atan2 PosInf PosInf = Fin (pi / 4)"
| "Math_atan2 PosInf NegInf = Fin (3 * pi / 4)"
| "Math_atan2 NegInf PosInf = Fin (- (pi / 4))"
| "Math_atan2 NegInf NegInf = Fin (- (3 * pi / 4))"

subsection \<open>The Haversine distance\<close>

text \<open>
  \<^verbatim>\<open>calculateDistance(lat1, lon1, lat2, lon2)\<close>, line by line, in exact arithmetic.
\<close>

definition calculateDistance :: "jsnum \<Rightarrow> jsnum \<Rightarrow> jsnum \<Rightarrow> jsnum \<Rightarrow> jsnum" where
  "calculateDistance lat1 lon1 lat2 lon2 =
     (let R = Fin 6371;
          dLat = js_div (js_mul (js_sub lat2 lat1) Math_PI) (Fin 180);
          dLon = js_div (js_mul (js_sub lon2 lon1) Math_PI) (Fin 180);
          a = js_add
                (js_mul (Math_sin (js_div dLat (Fin 2))) (Math_sin (js_div dLat (Fin 2))))
                (js_mul
                  (js_mul
                    (js_mul (Math_cos (js_div (js_mul lat1 Math_PI) (Fin 180)))
                            (Math_cos (js_div (js_mul lat2 Math_PI) (Fin 180))))
                    (Math_sin (js_div dLon (Fin 2))))
                  (Math_sin (js_div dLon (Fin 2))));
          c = js_mul (Fin 2) (Math_atan2 (Math_sqrt a) (Math_sqrt (js_sub (Fin 1) a)));
          distance = js_mul R c
      in distance)"

subsection \<open>Strings and the conversions between strings and numbers\<close>

text \<open>
  A string is a list of characters; the model covers the characters with a code below
  256. \<open>is_whitespace\<close> is the class \<^verbatim>\<open>StrWhiteSpaceChar\<close> of ECMAScript on that range
  (tab, line feed, vertical tab, form feed, carriage return, space, no-break space), the
  characters that \<^verbatim>\<open>trim\<close> removes and \<^verbatim>\<open>parseFloat\<close> skips.
\<close>

definition is_whitespace :: "char \<Rightarrow> bool" where
  "is_whitespace c =
     (c \<in> set [CHR 0x09, CHR 0x0A, CHR 0x0B, CHR 0x0C, CHR 0x0D, CHR 0x20, CHR 0xA0])"

definition trim :: "string \<Rightarrow> string" where
  "trim s = rev (dropWhile is_whitespace (rev (dropWhile is_whitespace s)))"

definition is_digit :: "char \<Rightarrow> bool" where
  "is_digit c = (c \<in> set ''0123456789'')"

definition digit_val :: "char \<Rightarrow> nat" where
  "digit_val c = of_char c - 48"

definition digit_char :: "nat \<Rightarrow> char" where
  "digit_char d = ''0123456789'' ! d"

text \<open>The value of a string of decimal digits, and the decimal digits of a number.\<close>

definition digits_value :: "string \<Rightarrow> nat" where
  "digits_value ds = foldl (\<lambda>n c. 10 * n + digit_val c) 0 ds"

fun digits_of :: "nat \<Rightarrow> string" where
  "digits_of n =
     (if n < 10 then [digit_char n] else digits_of (n div 10) @ [digit_char (n mod 10)])"

declare digits_of.simps [simp del]

text \<open>
  The exponent part of a decimal literal: \<^verbatim>\<open>e\<close> or \<^verbatim>\<open>E\<close>, an optional sign and
  at least one digit. Anything else is no exponent part, and the literal ends before it.
\<close>

definition exponent_part :: "string \<Rightarrow> int" where
  "exponent_part r =
     (case r of
        [] \<Rightarrow> 0
      | c # t \<Rightarrow>
          if c = CHR ''e'' \<or> c = CHR ''E'' then
            (case t of
               [] \<Rightarrow> 0
             | d # u \<Rightarrow>
                 if d = CHR ''-'' then
                   (if takeWhile is_digit u = [] then 0
                    else - int (digits_value (takeWhile is_digit u)))
                 else if d = CHR ''+'' then
                   (if takeWhile is_digit u = [] then 0
                    else int (digits_value (takeWhile is_digit u)))
                 else
                   (if takeWhile is_digit t = [] then 0
                    else int (digits_value (takeWhile is_digit t))))
          else 0)"

text \<open>
  The double nearest to a real number, the \<open>Number value for x\<close> of ECMAScript: with
  \<open>e\<close> the binary exponent of \<open>x\<close> (not below \<open>-1022\<close>, where the subnormal numbers
  begin), \<open>x\<close> is rounded to a multiple of \<open>2\<^sup>e\<^sup>-\<^sup>5\<^sup>2\<close>, to the even multiple of two
  equally near ones; a result of magnitude \<open>2\<^sup>1\<^sup>0\<^sup>2\<^sup>4\<close> is an infinity, and a result \<open>0\<close> is
  the zero.
\<close>

definition round_half_even :: "real \<Rightarrow> int" where
  "round_half_even y =
     (let f = \<lfloor>y\<rfloor>
      in if y - of_int f < 1 / 2 then f
         else if 1 / 2 < y - of_int f then f + 1
         else if even f then f else f + 1)"

definition to_double :: "real \<Rightarrow> jsnum" where
  "to_double x =
     (if x = 0 then Fin 0
      else
        let e = max \<lfloor>log 2 \<bar>x\<bar>\<rfloor> (- 1022);
            ulp = 2 powi (e - 52);
            r = of_int (round_half_even (x / ulp)) * ulp
        in if 2 ^ 1024 \<le> \<bar>r\<bar> then (if x < 0 then NegInf else PosInf) else Fin r)"

text \<open>
  \<^verbatim>\<open>parseFloat\<close> on a string: leading white space is skipped, and the longest prefix of
  the rest that is a \<^verbatim>\<open>StrDecimalLiteral\<close> (a sign, then \<^verbatim>\<open>Infinity\<close> or digits with an
  optional fraction and exponent) gives the number, rounded to the nearest double; whatever
  follows the literal is ignored. The result is \<open>NaN\<close> when no prefix is a literal.
\<close>

definition parseFloat_string :: "string \<Rightarrow> jsnum" where
  "parseFloat_string s =
     (let t = dropWhile is_whitespace s;
          neg = (case t of [] \<Rightarrow> False | c # r \<Rightarrow> c = CHR ''-'');
          u = (case t of [] \<Rightarrow> []
               | c # r \<Rightarrow> if c = CHR ''-'' \<or> c = CHR ''+'' then r else t)
      in if take 8 u = ''Infinity'' then (if neg then NegInf else PosInf)
         else
           let ip = takeWhile is_digit u;
               r1 = dropWhile is_digit u;
               fp = (case r1 of [] \<Rightarrow> []
                     | c # r \<Rightarrow> if c = CHR ''.'' then takeWhile is_digit r else []);
               r2 = (case r1 of [] \<Rightarrow> []
                     | c # r \<Rightarrow> if c = CHR ''.'' then dropWhile is_digit r else r1)
           in if ip = [] \<and> fp = [] then NaN
              else
                let m = real (digits_value ip) + real (digits_value fp) / 10 ^ length fp;
                    e = exponent_part r2
                in to_double ((if neg then - 1 else 1) * m * 10 powi e))"

text \<open>
  \<^verbatim>\<open>x.toFixed(f)\<close>, for \<open>f \<le> 100\<close>. A number that is not finite prints as its name. A
  finite one prints its sign and then, below \<open>10\<^sup>2\<^sup>1\<close>, the digits of the integer \<open>n\<close>
  nearest to \<open>|x| \<cdot> 10\<^sup>f\<close> (the larger one of two equally near), padded with zeros to more
  than \<open>f\<close> digits, with a point before the last \<open>f\<close> digits. From \<open>10\<^sup>2\<^sup>1\<close> on the
  result is the number's own string conversion, whose digits depend on the binary
  representation: the model takes that conversion as the parameter \<open>numToString\<close>.
\<close>

definition toFixed :: "(real \<Rightarrow> string) \<Rightarrow> nat \<Rightarrow> jsnum \<Rightarrow> string" where
  "toFixed numToString f x =
     (case x of
        NaN \<Rightarrow> ''NaN''
      | PosInf \<Rightarrow> ''Infinity''
      | NegInf \<Rightarrow> ''-Infinity''
      | Fin r \<Rightarrow>
          let s = (if r < 0 then ''-'' else []);
              x = (if r < 0 then - r else r)
          in if 10 ^ 21 \<le> x then s @ numToString x
             else
               let n = nat \<lfloor>x * 10 ^ f + 1 / 2\<rfloor>;
                   m = digits_of n;
                   m = (if f \<noteq> 0 \<and> length m \<le> f
                        then replicate (f + 1 - length m) (CHR ''0'') @ m else m);
                   k = length m
               in if f \<noteq> 0 then s @ take (k - f) m @ ''.'' @ drop (k - f) m else s @ m)"

subsection \<open>JavaScript values\<close>

text \<open>
  The values a request field can hold after body or query parsing. A missing field is
  \<open>JUndefined\<close>. An array or an object is \<open>JObject\<close> with the string its conversion to
  a string gives (all that the code below can observe of it); an object whose conversion
  throws is not represented.
\<close>

datatype jsval = JUndefined | JNull | JBool bool | JNum jsnum | JStr string | JObject string

fun typeof :: "jsval \<Rightarrow> string" where
  "typeof JUndefined = ''undefined''"
| "typeof JNull = ''object''"
| "typeof (JBool _) = ''boolean''"
| "typeof (JNum _) = ''number''"
| "typeof (JStr _) = ''string''"
| "typeof (JObject _) = ''object''"

text \<open>\<^verbatim>\<open>!v\<close>: true on the values that convert to \<^verbatim>\<open>false\<close>.\<close>

fun js_not :: "jsval \<Rightarrow> bool" where
  "js_not JUndefined = True"
| "js_not JNull = True"
| "js_not (JBool b) = (\<not> b)"
| "js_not (JNum n) = (n = NaN \<or> n = Fin 0)"
| "js_not (JStr s) = (s = [])"
| "js_not (JObject _) = False"

text \<open>
  \<^verbatim>\<open>parseFloat(v)\<close> converts its argument to a string and reads a number from it. The
  string of a number reads back as that number.
\<close>

fun parseFloat :: "jsval \<Rightarrow> jsnum" where
  "parseFloat JUndefined = parseFloat_string ''undefined''"
| "parseFloat JNull = parseFloat_string ''null''"
| "parseFloat (JBool b) = parseFloat_string (if b then ''true'' else ''false'')"
| "parseFloat (JNum n) = n"
| "parseFloat (JStr s) = parseFloat_string s"
| "parseFloat (JObject s) = parseFloat_string s"

subsection \<open>The validator\<close>

text \<open>
  The object that \<^verbatim>\<open>validateSchoolData\<close> receives, and the request body of
  \<^verbatim>\<open>POST /addSchool\<close>: four fields of any value.
\<close>

record school_data =
  name :: jsval
  address :: jsval
  latitude :: jsval
  longitude :: jsval

text \<open>
  \<^verbatim>\<open>v.trim() === ""\<close>. The source evaluates it after \<^verbatim>\<open>typeof v !== "string"\<close> has
  been found false, so only on a string; on the other values the disjunction is already
  true.
\<close>

fun trim_is_empty :: "jsval \<Rightarrow> bool" where
  "trim_is_empty (JStr s) = (trim s = [])"
| "trim_is_empty _ = True"

definition validateSchoolData :: "school_data \<Rightarrow> string list" where
  "validateSchoolData data =
     (let errors = [];
          errors =
            (if js_not (name data) \<or> typeof (name data) \<noteq> ''string''
                \<or> trim_is_empty (name data)
             then errors @ [''Name is required and must be a non-empty string'']
             else errors);
          errors =
            (if js_not (address data) \<or> typeof (address data) \<noteq> ''string''
                \<or> trim_is_empty (address data)
             then errors @ [''Address is required and must be a non-empty string'']
             else errors);
          errors =
            (if latitude data = JUndefined \<or> isNaN (parseFloat (latitude data))
             then errors @ [''Latitude is required and must be a valid number'']
             else
               let lat = parseFloat (latitude data)
               in if js_lt lat (Fin (- 90)) \<or> js_gt lat (Fin 90)
                  then errors @ [''Latitude must be between -90 and 90 degrees'']
                  else errors);
          errors =
            (if longitude data = JUndefined \<or> isNaN (parseFloat (longitude data))
             then errors @ [''Longitude is required and must be a valid number'']
             else
               let lon = parseFloat (longitude data)
               in if js_lt lon (Fin (- 180)) \<or> js_gt lon (Fin 180)
                  then errors @ [''Longitude must be between -180 and 180 degrees'']
                  else errors)
      in errors)"

subsection \<open>The record store\<close>

text \<open>
  The table \<^verbatim>\<open>schools\<close> behind the connection pool: its rows in the order a
  \<^verbatim>\<open>SELECT *\<close> returns them, the next value of the \<^verbatim>\<open>AUTO_INCREMENT\<close> key, the
  store's clock for \<^verbatim>\<open>created_at\<close>, and whether a query succeeds at all (a query on a
  store that is not online throws, and the handler's \<^verbatim>\<open>catch\<close> answers 500). The
  columns hold text and finite numbers; the precision of \<^verbatim>\<open>FLOAT\<close> and the length
  limit of \<^verbatim>\<open>VARCHAR(255)\<close> are not modelled.
\<close>

record school =
  school_id :: nat
  school_name :: string
  school_address :: string
  school_latitude :: real
  school_longitude :: real
  created_at :: nat

record database =
  rows :: "school list"
  next_id :: nat
  clock :: nat
  online :: bool

datatype store_error = StoreError

fun column_text :: "jsval \<Rightarrow> string option" where
  "column_text (JStr s) = Some s"
| "column_text _ = None"

fun column_float :: "jsval \<Rightarrow> real option" where
  "column_float (JNum (Fin x)) = Some x"
| "column_float _ = None"

text \<open>
  \<^verbatim>\<open>INSERT INTO schools (name, address, latitude, longitude) VALUES (?, ?, ?, ?)\<close>:
  the new row goes last and the result carries its key. The model accepts a string for a
  text column and a finite number for a number column, which is all that a validated record
  holds, and rejects every other value.
\<close>

definition insert_school ::
  "database \<Rightarrow> jsval \<Rightarrow> jsval \<Rightarrow> jsval \<Rightarrow> jsval \<Rightarrow> store_error + (nat \<times> database)" where
  "insert_school db n a la lo =
     (if \<not> online db then Inl StoreError
      else
        case (column_text n, column_text a, column_float la, column_float lo) of
          (Some n', Some a', Some la', Some lo') \<Rightarrow>
            Inr (next_id db,
                 db\<lparr>rows := rows db @
                        [\<lparr>school_id = next_id db, school_name = n', school_address = a',
                          school_latitude = la', school_longitude = lo',
                          created_at = clock db\<rparr>],
                    next_id := next_id db + 1\<rparr>)
        | _ \<Rightarrow> Inl StoreError)"

text \<open>\<^verbatim>\<open>SELECT * FROM schools\<close>.\<close>

definition select_schools :: "database \<Rightarrow> store_error + school list" where
  "select_schools db = (if online db then Inr (rows db) else Inl StoreError)"

subsection \<open>Responses\<close>

text \<open>
  A school of a listing response is the row with one more field, \<^verbatim>\<open>distance\<close>. The
  four shapes of a response body: \<^verbatim>\<open>{success: false, errors}\<close>,
  \<^verbatim>\<open>{success: false, message}\<close>, \<^verbatim>\<open>{success: true, message, schoolId}\<close> and
  \<^verbatim>\<open>{success: true, count, schools}\<close>.
\<close>

record ranked_school = school +
  distance :: jsnum

datatype json_body =
    ValidationErrors "string list"
  | FailureMessage string
  | SchoolAdded string nat
  | SchoolList nat "ranked_school list"

record response =
  status :: nat
  body :: json_body

subsection \<open>Registration: \<^verbatim>\<open>POST /addSchool\<close>\<close>

text \<open>The object \<^verbatim>\<open>schoolData\<close> that the handler builds from the request body.\<close>

definition schoolData :: "school_data \<Rightarrow> school_data" where
  "schoolData req_body =
     \<lparr>name = name req_body,
      address = address req_body,
      latitude = JNum (parseFloat (latitude req_body)),
      longitude = JNum (parseFloat (longitude req_body))\<rparr>"

definition addSchool :: "school_data \<Rightarrow> database \<Rightarrow> response \<times> database" where
  "addSchool req_body db =
     (let sd = schoolData req_body;
          validationErrors = validateSchoolData sd
      in if length validationErrors > 0
         then (\<lparr>status = 400, body = ValidationErrors validationErrors\<rparr>, db)
         else
           case insert_school db (name sd) (address sd) (latitude sd) (longitude sd) of
             Inr (insertId, db') \<Rightarrow>
               (\<lparr>status = 201, body = SchoolAdded ''School added successfully'' insertId\<rparr>, db')
           | Inl err \<Rightarrow>
               (\<lparr>status = 500,
                 body = FailureMessage ''An error occurred while adding the school''\<rparr>, db))"

subsection \<open>Listing: \<^verbatim>\<open>GET /listSchools\<close>\<close>

record query =
  query_latitude :: jsval
  query_longitude :: jsval

text \<open>
  \<^verbatim>\<open>Array.prototype.sort(comparefn)\<close>. ECMAScript requires the sort to be stable, puts
  \<open>x\<close> after \<open>y\<close> only when \<^verbatim>\<open>comparefn(x, y) > 0\<close> and reads a \<open>NaN\<close> from the
  comparator as \<open>0\<close>; for a comparator that is a consistent ordering this fixes the result,
  which the insertion sort below computes. The comparator of the listing is consistent as
  long as no distance is \<open>NaN\<close>. With a \<open>NaN\<close> among the keys ECMAScript leaves the
  order to the engine, and the order below need not be the engine's: nothing is proved here
  about the order of such a listing.
\<close>

fun sort_insert :: "('a \<Rightarrow> 'a \<Rightarrow> jsnum) \<Rightarrow> 'a \<Rightarrow> 'a list \<Rightarrow> 'a list" where
  "sort_insert comparefn x [] = [x]"
| "sort_insert comparefn x (y # ys) =
     (if js_gt (comparefn x y) (Fin 0) then y # sort_insert comparefn x ys else x # y # ys)"

definition js_sort :: "('a \<Rightarrow> 'a \<Rightarrow> jsnum) \<Rightarrow> 'a list \<Rightarrow> 'a list" where
  "js_sort comparefn xs = foldr (sort_insert comparefn) xs []"

text \<open>
  The callback of \<^verbatim>\<open>schools.map\<close>: the row, extended with the distance rounded by
  \<^verbatim>\<open>parseFloat(distance.toFixed(2))\<close>.
\<close>

definition withDistance :: "(real \<Rightarrow> string) \<Rightarrow> jsnum \<Rightarrow> jsnum \<Rightarrow> school \<Rightarrow> ranked_school" where
  "withDistance numToString userLatitude userLongitude s =
     (let d = calculateDistance userLatitude userLongitude
                (Fin (school_latitude s)) (Fin (school_longitude s))
      in school.extend s
           (ranked_school.fields (parseFloat (JStr (toFixed numToString 2 d)))))"

definition listSchools :: "(real \<Rightarrow> string) \<Rightarrow> query \<Rightarrow> database \<Rightarrow> response" where
  "listSchools numToString req_query db =
     (let userLatitude = parseFloat (query_latitude req_query);
          userLongitude = parseFloat (query_longitude req_query)
      in if isNaN userLatitude \<or> isNaN userLongitude
            \<or> js_lt userLatitude (Fin (- 90)) \<or> js_gt userLatitude (Fin 90)
            \<or> js_lt userLongitude (Fin (- 180)) \<or> js_gt userLongitude (Fin 180)
         then \<lparr>status = 400,
               body = FailureMessage
                 ''Invalid coordinates provided. Latitude must be between -90 and 90, longitude between -180 and 180''\<rparr>
         else
           case select_schools db of
             Inl err \<Rightarrow>
               \<lparr>status = 500,
                 body = FailureMessage ''An error occurred while retrieving schools''\<rparr>
           | Inr schools \<Rightarrow>
               let schoolsWithDistance =
                     map (withDistance numToString userLatitude userLongitude) schools;
                   schoolsWithDistance =
                     js_sort (\<lambda>a b. js_sub (distance a) (distance b)) schoolsWithDistance
               in \<lparr>status = 200,
                    body = SchoolList (length schoolsWithDistance) schoolsWithDistance\<rparr>)"

subsection \<open>Notions of the specification\<close>

text \<open>
  The validator's rules in the specification's words: a text field is \<open>present, a string
  type, and non-empty after trimming whitespace\<close>; a coordinate that is a number must \<open>lie
  in [lo, hi] inclusive\<close>.
\<close>

definition nonempty_text :: "jsval \<Rightarrow> bool" where
  "nonempty_text v = (case v of JStr s \<Rightarrow> trim s \<noteq> [] | _ \<Rightarrow> False)"

definition in_range :: "real \<Rightarrow> real \<Rightarrow> jsnum \<Rightarrow> bool" where
  "in_range lo hi n = (case n of Fin x \<Rightarrow> lo \<le> x \<and> x \<le> hi | _ \<Rightarrow> False)"








text \<open>
  The four messages of the validator that concern the coordinates, and a number-to-string
  conversion to run closed examples with (any function can stand there: no distance
  reaches \<open>10\<^sup>2\<^sup>1\<close>).
\<close>

definition coordinate_messages :: "string set" where
  "coordinate_messages =
     {''Latitude is required and must be a valid number'',
      ''Latitude must be between -90 and 90 degrees'',
      ''Longitude is required and must be a valid number'',
      ''Longitude must be between -180 and 180 degrees''}"

definition integer_part_string :: "real \<Rightarrow> string" where
  "integer_part_string r = digits_of (nat \<lfloor>r\<rfloor>)"

text \<open>
  Two abbreviations for the proofs about \<open>calculateDistance\<close>: the value of the source's
  variable \<^verbatim>\<open>a\<close> on finite arguments, and the distance as a function of \<^verbatim>\<open>a\<close>.
\<close>

definition code_a :: "real \<Rightarrow> real \<Rightarrow> real \<Rightarrow> real \<Rightarrow> real" where
  "code_a lat1 lon1 lat2 lon2 =
     sin ((lat2 - lat1) * pi / 180 / 2) * sin ((lat2 - lat1) * pi / 180 / 2)
     + cos (lat1 * pi / 180) * cos (lat2 * pi / 180)
       * sin ((lon2 - lon1) * pi / 180 / 2) * sin ((lon2 - lon1) * pi / 180 / 2)"

definition distance_of_a :: "real \<Rightarrow> jsnum" where
  "distance_of_a a =
     js_mul (Fin 6371)
       (js_mul (Fin 2) (Math_atan2 (Math_sqrt (Fin a)) (Math_sqrt (js_sub (Fin 1) (Fin a)))))"

text \<open>
  The message of the listing for a rejected query, and the five sample rows that
  \<^verbatim>\<open>initializeDatabase\<close> inserts into an empty table, with the store that holds exactly
  them.
\<close>

definition invalid_coordinates_message :: string where
  "invalid_coordinates_message =
     ''Invalid coordinates provided. Latitude must be between -90 and 90, longitude between -180 and 180''"

definition seeded_schools :: "school list" where
  "seeded_schools =
     [\<lparr>school_id = 1, school_name = ''Washington High School'',
       school_address = ''1234 Washington St, Seattle, WA'',
       school_latitude = 47.6062, school_longitude = - 122.3321, created_at = 0\<rparr>,
      \<lparr>school_id = 2, school_name = ''Lincoln Elementary'',
       school_address = ''5678 Lincoln Ave, Portland, OR'',
       school_latitude = 45.5152, school_longitude = - 122.6784, created_at = 0\<rparr>,
      \<lparr>school_id = 3, school_name = ''Jefferson Middle School'',
       school_address = ''9012 Jefferson Blvd, San Francisco, CA'',
       school_latitude = 37.7749, school_longitude = - 122.4194, created_at = 0\<rparr>,
      \<lparr>school_id = 4, school_name = ''Roosevelt Academy'',
       school_address = ''3456 Roosevelt Way, Los Angeles, CA'',
       school_latitude = 34.0522, school_longitude = - 118.2437, created_at = 0\<rparr>,
      \<lparr>school_id = 5, school_name = ''Kennedy High'',
       school_address = ''7890 Kennedy Rd, San Diego, CA'',
       school_latitude = 32.7157, school_longitude = - 117.1611, created_at = 0\<rparr>]"

definition seeded_database :: database where
  "seeded_database = \<lparr>rows = seeded_schools, next_id = 6, clock = 0, online = True\<rparr>"

section \<open>Verification\<close>

subsection \<open>The distance on finite arguments\<close>

lemma js_sub_Fin: "js_sub (Fin x) (Fin y) = Fin (x - y)"
  by (simp add: js_sub_def)

lemma js_div_Fin_180: "js_div (Fin x) (Fin 180) = Fin (x / 180)"
  by simp

lemma js_div_Fin_2: "js_div (Fin x) (Fin 2) = Fin (x / 2)"
  by simp

lemma calculateDistance_Fin:
  "calculateDistance (Fin lat1) (Fin lon1) (Fin lat2) (Fin lon2) =
     distance_of_a (code_a lat1 lon1 lat2 lon2)"
  unfolding calculateDistance_def Let_def Math_PI_def distance_of_a_def code_a_def
  by (simp only: js_sub_Fin js_div_Fin_180 js_div_Fin_2 js_mul.simps js_add.simps
        Math_sin.simps Math_cos.simps)

lemma distance_of_a_unit:
  "0 \<le> a \<Longrightarrow> a \<le> 1 \<Longrightarrow>
     distance_of_a a = Fin (6371 * (2 * atan2 (sqrt a) (sqrt (1 - a))))"
  by (simp add: distance_of_a_def js_sub_Fin)

lemma code_a_same: "code_a lat lon lat lon = 0"
  by (simp add: code_a_def)

lemma distance_of_a_0: "distance_of_a 0 = Fin 0"
  by (simp add: distance_of_a_def js_sub_Fin atan2_def)


lemma calculateDistance_same_point:
  "calculateDistance (Fin lat) (Fin lon) (Fin lat) (Fin lon) = Fin 0"
  by (simp only: calculateDistance_Fin code_a_same distance_of_a_0)

subsection \<open>Digits, \<open>toFixed\<close> and \<open>parseFloat\<close>\<close>

lemma digits_of_small: "n < 10 \<Longrightarrow> digits_of n = [digit_char n]"
  by (simp add: digits_of.simps)
lemma digits_of_big: "10 \<le> n \<Longrightarrow> digits_of n = digits_of (n div 10) @ [digit_char (n mod 10)]"
  by (subst digits_of.simps) simp
lemma digit_val_digit_char: "d < (10::nat) \<Longrightarrow> digit_val (digit_char d) = d"
proof -
  assume "d < (10::nat)"
  then have "d = 0 \<or> d = 1 \<or> d = 2 \<or> d = 3 \<or> d = 4 \<or> d = 5 \<or> d = 6 \<or> d = 7
    \<or> d = 8 \<or> d = 9" by arith
  then show ?thesis
    by (elim disjE) (simp_all add: digit_val_def digit_char_def)
qed

lemma is_digit_digit_char: "d < (10::nat) \<Longrightarrow> is_digit (digit_char d)"
proof -
  assume "d < (10::nat)"
  then have "d = 0 \<or> d = 1 \<or> d = 2 \<or> d = 3 \<or> d = 4 \<or> d = 5 \<or> d = 6 \<or> d = 7
    \<or> d = 8 \<or> d = 9" by arith
  then show ?thesis
    by (elim disjE) (simp_all add: is_digit_def digit_char_def)
qed

lemma digits_value_append:
  "digits_value (xs @ ys) = digits_value xs * 10 ^ length ys + digits_value ys"
proof (induction ys rule: rev_induct)
  case Nil
  then show ?case by (simp add: digits_value_def)
next
  case (snoc y ys)
  have "digits_value (xs @ ys @ [y]) = 10 * digits_value (xs @ ys) + digit_val y"
    by (simp add: digits_value_def)
  also have "\<dots> = 10 * (digits_value xs * 10 ^ length ys + digits_value ys) + digit_val y"
    by (simp only: snoc.IH)
  also have "\<dots> = digits_value xs * 10 ^ length (ys @ [y]) + digits_value (ys @ [y])"
    by (simp add: digits_value_def algebra_simps)
  finally show ?case by simp
qed

lemma digits_value_digits_of: "digits_value (digits_of n) = n"
proof (induction n rule: digits_of.induct)
  case (1 n)
  show ?case
  proof (cases "n < 10")
    case True
    then show ?thesis
      by (simp add: digits_of_small digits_value_def digit_val_digit_char)
  next
    case False
    then have "digits_value (digits_of n)
        = digits_value (digits_of (n div 10)) * 10 + digit_val (digit_char (n mod 10))"
      by (simp add: digits_of_big digits_value_append) (simp add: digits_value_def)
    also have "\<dots> = (n div 10) * 10 + n mod 10"
      using 1 False by (simp add: digit_val_digit_char)
    finally show ?thesis by simp
  qed
qed

lemma digits_of_all_digits: "list_all is_digit (digits_of n)"
proof (induction n rule: digits_of.induct)
  case (1 n)
  show ?case
  proof (cases "n < 10")
    case True
    then show ?thesis by (simp add: digits_of_small is_digit_digit_char)
  next
    case False
    then show ?thesis using 1 by (simp add: digits_of_big is_digit_digit_char)
  qed
qed



lemma digits_value_zeros: "digits_value (replicate j (CHR ''0'')) = 0"
proof (induction j)
  case 0
  show ?case by (simp add: digits_value_def)
next
  case (Suc j)
  have "digits_value (replicate (Suc j) (CHR ''0''))
      = digits_value ([CHR ''0''] @ replicate j (CHR ''0''))" by simp
  also have "\<dots> = digits_value [CHR ''0''] * 10 ^ j + digits_value (replicate j (CHR ''0''))"
    by (simp only: digits_value_append length_replicate)
  also have "\<dots> = 0"
    by (simp add: Suc.IH) (simp add: digits_value_def digit_val_def)
  finally show ?case .
qed

lemma round_half_even_of_int: "round_half_even (of_int n) = n"
  by (simp add: round_half_even_def)




text \<open>An integer below \<open>2\<^sup>5\<^sup>3\<close> in magnitude is a double.\<close>

lemma to_double_of_int:
  assumes "\<bar>n\<bar> < 2 ^ 53"
  shows "to_double (of_int n) = Fin (of_int n)"
proof (cases "n = 0")
  case True
  then show ?thesis by (simp add: to_double_def)
next
  case False
  define k where "k = \<lfloor>log 2 \<bar>of_int n :: real\<bar>\<rfloor>"
  have one: "1 \<le> \<bar>of_int n :: real\<bar>" using False by (simp flip: of_int_abs)
  have lt: "\<bar>of_int n :: real\<bar> < 2 ^ 53" using assms by (simp flip: of_int_abs)
  have k0: "0 \<le> k" unfolding k_def using one by simp
  have "log 2 \<bar>of_int n :: real\<bar> < 53"
    using lt one by (simp add: log_less_iff)
  then have k52: "k \<le> 52" unfolding k_def by linarith
  define j where "j = nat (52 - k)"
  have u: "(2::real) powi (k - 52) = 1 / 2 ^ j"
    using k52 by (simp add: j_def power_int_def power_one_over)
  have q: "of_int n / (2 powi (k - 52)) = (of_int (n * 2 ^ j) :: real)"
    by (simp add: u)
  have r: "of_int (round_half_even (of_int n / 2 powi (k - 52))) * 2 powi (k - 52)
      = (of_int n :: real)"
    unfolding q round_half_even_of_int by (simp add: u)
  have big: "\<not> (2 ^ 1024 \<le> \<bar>of_int n :: real\<bar>)"
  proof -
    have "(2::real) ^ 53 \<le> 2 ^ 1024" by (rule power_increasing) simp_all
    with lt show ?thesis by linarith
  qed
  have m: "max k (- 1022) = k" using k0 by simp
  show ?thesis
    using False big by (simp add: to_double_def Let_def k_def [symmetric] m r)
qed

lemma to_double_examples:
  "to_double 0 = Fin 0" "to_double 10 = Fin 10" "to_double 12 = Fin 12"
  "to_double 200 = Fin 200" "to_double (- 12) = Fin (- 12)"
  using to_double_of_int [of 0] to_double_of_int [of 10] to_double_of_int [of 12]
    to_double_of_int [of 200] to_double_of_int [of "- 12"]
  by simp_all


lemma is_digit_not_special:
  assumes "is_digit c"
  shows "\<not> is_whitespace c" "c \<noteq> CHR ''-''" "c \<noteq> CHR ''+''" "c \<noteq> CHR ''I''" "c \<noteq> CHR ''.''"
  using assms by (auto simp: is_digit_def is_whitespace_def)

text \<open>
  \<^verbatim>\<open>parseFloat\<close> on a sign and digits, followed by anything that is no further digit:
  the digits are the whole part, and the reading goes on with what follows.
\<close>

lemma parseFloat_string_digits:
  assumes "sg = [] \<or> sg = ''-'' \<or> sg = ''+''"
    and "ip \<noteq> []" "list_all is_digit ip"
    and "list_all (\<lambda>c. \<not> is_digit c) (take 1 rest)"
  shows "parseFloat_string (sg @ ip @ rest) =
     to_double ((if sg = ''-'' then - 1 else 1)
       * (real (digits_value ip)
          + real (digits_value (case rest of [] \<Rightarrow> []
                                | c # r \<Rightarrow> if c = CHR ''.'' then takeWhile is_digit r else []))
            / 10 ^ length (case rest of [] \<Rightarrow> []
                           | c # r \<Rightarrow> if c = CHR ''.'' then takeWhile is_digit r else []))
       * 10 powi exponent_part (case rest of [] \<Rightarrow> []
                                | c # r \<Rightarrow> if c = CHR ''.'' then dropWhile is_digit r else rest))"
proof -
  from assms(2) obtain c ip' where ip: "ip = c # ip'" by (cases ip) auto
  with assms(3) have c: "is_digit c" by simp
  note ns = is_digit_not_special [OF c]
  have tw: "takeWhile is_digit (ip @ rest) = ip" and dw: "dropWhile is_digit (ip @ rest) = rest"
    using assms(3,4) by (cases rest; simp add: takeWhile_tail dropWhile_append list_all_iff)+
  have skip: "dropWhile is_whitespace (sg @ ip @ rest) = sg @ ip @ rest"
    using assms(1) ns(1) by (auto simp add: ip is_whitespace_def)
  have neg: "(case sg @ ip @ rest of [] \<Rightarrow> False | c # r \<Rightarrow> c = CHR ''-'') = (sg = ''-'')"
    using assms(1) ns(2) by (auto simp add: ip)
  have u: "(case sg @ ip @ rest of [] \<Rightarrow> []
            | c # r \<Rightarrow> if c = CHR ''-'' \<or> c = CHR ''+'' then r else sg @ ip @ rest)
           = ip @ rest"
    using assms(1) ns(2,3) by (auto simp add: ip)
  have inf: "take 8 (ip @ rest) \<noteq> ''Infinity''"
    using ns(4) by (simp add: ip take_Cons')
  show ?thesis
    unfolding parseFloat_string_def skip Let_def neg u tw dw
    using inf assms(2) by simp
qed

lemma parseFloat_string_decimal:
  assumes "a \<noteq> []" "list_all is_digit a" "list_all is_digit b"
  shows "parseFloat_string (a @ CHR ''.'' # b)
         = to_double (real (digits_value a) + real (digits_value b) / 10 ^ length b)"
proof -
  have twb: "takeWhile is_digit b = b" and dwb: "dropWhile is_digit b = []"
    using assms(3) by (simp_all add: list_all_iff)
  have "list_all (\<lambda>c. \<not> is_digit c) (take 1 (CHR ''.'' # b))"
    by (simp add: is_digit_def)
  from parseFloat_string_digits [of "[]" a "CHR ''.'' # b", OF _ assms(1,2) this]
  show ?thesis by (simp add: twb dwb exponent_part_def)
qed

lemma parseFloat_toFixed:
  assumes "0 \<le> x" "x < 10 ^ 21" "0 < f"
  shows "parseFloat_string (toFixed ts f (Fin x))
         = to_double (real (nat \<lfloor>x * 10 ^ f + 1 / 2\<rfloor>) / 10 ^ f)"
proof -
  define n where "n = nat \<lfloor>x * 10 ^ f + 1 / 2\<rfloor>"
  define m where "m = (if length (digits_of n) \<le> f
      then replicate (f + 1 - length (digits_of n)) (CHR ''0'') @ digits_of n else digits_of n)"
  define k where "k = length m"
  have digs: "list_all is_digit m"
    by (simp add: m_def digits_of_all_digits list_all_iff is_digit_def)
       (use digits_of_all_digits [of n] in \<open>auto simp: list_all_iff is_digit_def\<close>)
  have val: "digits_value m = n"
    by (simp add: m_def digits_value_append digits_value_zeros digits_value_digits_of)
  have len: "f < k"
    by (auto simp: k_def m_def)
  define a b where "a = take (k - f) m" and "b = drop (k - f) m"
  have ab: "a @ b = m" by (simp add: a_def b_def)
  have "a \<noteq> []" using len by (auto simp: a_def k_def)
  moreover have da: "list_all is_digit a" and db: "list_all is_digit b"
    using digs ab by (metis list_all_append)+
  ultimately have p: "parseFloat_string (a @ CHR ''.'' # b)
      = to_double (real (digits_value a) + real (digits_value b) / 10 ^ length b)"
    by (rule parseFloat_string_decimal)
  have lb: "length b = f" using len by (simp add: b_def k_def)
  have "real n = real (digits_value a) * 10 ^ f + real (digits_value b)"
    using digits_value_append [of a b] by (simp add: ab val lb)
  then have v: "real (digits_value a) + real (digits_value b) / 10 ^ f = real n / 10 ^ f"
    by (simp add: field_simps)
  have "toFixed ts f (Fin x) = a @ CHR ''.'' # b"
    using assms by (simp add: toFixed_def Let_def n_def [symmetric] m_def [symmetric]
        k_def [symmetric] a_def b_def)
  then show ?thesis
    by (simp add: p lb v n_def)
qed

lemma rounded_zero: "parseFloat (JStr (toFixed ts 2 (Fin 0))) = Fin 0"
  using parseFloat_toFixed [of 0 2 ts] by (simp add: to_double_def)

subsection \<open>The sort\<close>

lemma set_sort_insert: "set (sort_insert c x ys) = insert x (set ys)"
  by (induction ys) auto

lemma js_sort_Cons: "js_sort c (x # xs) = sort_insert c x (js_sort c xs)"
  by (simp add: js_sort_def)

lemma js_sort_Nil: "js_sort c [] = []"
  by (simp add: js_sort_def)

lemma set_js_sort: "set (js_sort c xs) = set xs"
  by (induction xs) (simp_all add: js_sort_Nil js_sort_Cons set_sort_insert)

lemma length_sort_insert: "length (sort_insert c x ys) = Suc (length ys)"
  by (induction ys) auto

lemma length_js_sort: "length (js_sort c xs) = length xs"
  by (induction xs) (simp_all add: js_sort_Nil js_sort_Cons length_sort_insert)

lemma mset_sort_insert: "mset (sort_insert c x ys) = add_mset x (mset ys)"
  by (induction ys) auto

lemma mset_js_sort: "mset (js_sort c xs) = mset xs"
  by (induction xs) (simp_all add: js_sort_Nil js_sort_Cons mset_sort_insert)

lemma distance_withDistance: "distance (withDistance ts a b s)
   = parseFloat (JStr (toFixed ts 2 (calculateDistance a b (Fin (school_latitude s)) (Fin (school_longitude s)))))"
  by (simp add: withDistance_def Let_def school.defs ranked_school.defs)

lemma truncate_withDistance: "school.truncate (withDistance ts a b s) = s"
  by (simp add: withDistance_def Let_def school.defs ranked_school.defs)

subsection \<open>The validator's tests\<close>

text \<open>The definitions that evaluate \<^verbatim>\<open>parseFloat\<close> on a given string.\<close>

lemmas parse_defs = parseFloat_string_def is_whitespace_def is_digit_def digits_value_def
  digit_val_def exponent_part_def Let_def to_double_examples

lemma name_rule: "(js_not v \<or> typeof v \<noteq> ''string'' \<or> trim_is_empty v) = (\<not> nonempty_text v)"
  by (cases v) (auto simp: nonempty_text_def trim_def)

lemma range_rule:
  "\<not> isNaN n \<Longrightarrow> (js_lt n (Fin (- lo)) \<or> js_gt n (Fin hi)) = (\<not> in_range (- lo) hi n)"
  by (cases n) (auto simp: in_range_def js_gt_def)

lemma undefined_rule: "(v = JUndefined \<or> isNaN (parseFloat v)) = isNaN (parseFloat v)"
  by (cases v) (simp_all add: parseFloat_string_def Let_def is_whitespace_def is_digit_def)

subsection \<open>The listing of a valid query\<close>

lemma atan2_quadrant: "0 \<le> y \<Longrightarrow> 0 \<le> x \<Longrightarrow> 0 \<le> atan2 y x \<and> atan2 y x \<le> pi / 2"
proof -
  assume y: "0 \<le> y" and x: "0 \<le> x"
  show ?thesis
  proof (cases "0 < x")
    case True
    then have "0 \<le> y / x" using y by simp
    then have "0 \<le> arctan (y / x)" by (simp add: arctan_lbound [THEN less_imp_le] zero_le_arctan_iff)
    moreover have "arctan (y / x) \<le> pi / 2" using arctan_ubound [of "y / x"] by simp
    ultimately show ?thesis using True by (simp add: atan2_def)
  next
    case False
    with x have "x = 0" by simp
    then show ?thesis using y by (simp add: atan2_def)
  qed
qed

lemma listSchools_valid_query:
  assumes "parseFloat (query_latitude q) = Fin ulat" "parseFloat (query_longitude q) = Fin ulon"
    and "- 90 \<le> ulat" "ulat \<le> 90" "- 180 \<le> ulon" "ulon \<le> 180"
    and "online db"
  shows "listSchools ts q db =
     \<lparr>status = 200,
      body = SchoolList (length (rows db))
               (js_sort (\<lambda>a b. js_sub (distance a) (distance b))
                  (map (withDistance ts (Fin ulat) (Fin ulon)) (rows db)))\<rparr>"
  using assms
  by (simp add: listSchools_def Let_def select_schools_def js_gt_def length_js_sort)

subsection \<open>The handlers\<close>

lemma validateSchoolData_rules:
  "validateSchoolData d =
     (if nonempty_text (name d) then []
      else [''Name is required and must be a non-empty string''])
     @ (if nonempty_text (address d) then []
        else [''Address is required and must be a non-empty string''])
     @ (if isNaN (parseFloat (latitude d))
        then [''Latitude is required and must be a valid number'']
        else if in_range (- 90) 90 (parseFloat (latitude d)) then []
        else [''Latitude must be between -90 and 90 degrees''])
     @ (if isNaN (parseFloat (longitude d))
        then [''Longitude is required and must be a valid number'']
        else if in_range (- 180) 180 (parseFloat (longitude d)) then []
        else [''Longitude must be between -180 and 180 degrees''])"
  unfolding validateSchoolData_def Let_def name_rule undefined_rule
  using range_rule [of "parseFloat (latitude d)" 90 90]
    range_rule [of "parseFloat (longitude d)" 180 180]
  by simp

lemma schoolData_fields:
  "name (schoolData b) = name b" "address (schoolData b) = address b"
  "parseFloat (latitude (schoolData b)) = parseFloat (latitude b)"
  "parseFloat (longitude (schoolData b)) = parseFloat (longitude b)"
  by (simp_all add: schoolData_def)

lemma addSchool_rejected:
  "validateSchoolData (schoolData b) \<noteq> [] \<Longrightarrow>
   addSchool b db
   = (\<lparr>status = 400, body = ValidationErrors (validateSchoolData (schoolData b))\<rparr>, db)"
  by (simp add: addSchool_def Let_def)

lemma in_range_not_NaN: "in_range lo hi n \<Longrightarrow> \<not> isNaN n"
  by (cases n) (simp_all add: in_range_def)

lemma coordinate_checks:
  "(isNaN lat \<or> isNaN lon \<or> js_lt lat (Fin (- 90)) \<or> js_gt lat (Fin 90)
      \<or> js_lt lon (Fin (- 180)) \<or> js_gt lon (Fin 180))
   = (\<not> (in_range (- 90) 90 lat \<and> in_range (- 180) 180 lon))"
  by (cases lat; cases lon) (auto simp: in_range_def js_gt_def)

lemma listSchools_rejected_iff:
  "(listSchools ts q db = \<lparr>status = 400, body = FailureMessage invalid_coordinates_message\<rparr>)
   = (\<not> (in_range (- 90) 90 (parseFloat (query_latitude q))
         \<and> in_range (- 180) 180 (parseFloat (query_longitude q))))"
  unfolding listSchools_def Let_def coordinate_checks invalid_coordinates_message_def
  by (simp split: sum.splits)

lemma coordinate_errors_iff:
  "(set (validateSchoolData (schoolData b)) \<inter> coordinate_messages \<noteq> {})
   = (\<not> (in_range (- 90) 90 (parseFloat (latitude b))
         \<and> in_range (- 180) 180 (parseFloat (longitude b))))"
  using in_range_not_NaN [of "- 90" 90 "parseFloat (latitude b)"]
    in_range_not_NaN [of "- 180" 180 "parseFloat (longitude b)"]
  by (auto simp add: validateSchoolData_rules schoolData_fields coordinate_messages_def)

lemma addSchool_accepted:
  assumes "validateSchoolData (schoolData b) = []" and "online db"
  shows "\<exists>n a la lo. name b = JStr n \<and> address b = JStr a
      \<and> parseFloat (latitude b) = Fin la \<and> parseFloat (longitude b) = Fin lo
      \<and> addSchool b db =
          (\<lparr>status = 201, body = SchoolAdded ''School added successfully'' (next_id db)\<rparr>,
           db\<lparr>rows := rows db @
                 [\<lparr>school_id = next_id db, school_name = n, school_address = a,
                   school_latitude = la, school_longitude = lo, created_at = clock db\<rparr>],
              next_id := next_id db + 1\<rparr>)"
proof -
  from assms(1) have v: "nonempty_text (name b)" "nonempty_text (address b)"
    "in_range (- 90) 90 (parseFloat (latitude b))" "in_range (- 180) 180 (parseFloat (longitude b))"
    by (simp_all add: validateSchoolData_rules schoolData_fields split: if_splits)
  from v(1) obtain n where n: "name b = JStr n"
    by (cases "name b") (simp_all add: nonempty_text_def)
  from v(2) obtain a where a: "address b = JStr a"
    by (cases "address b") (simp_all add: nonempty_text_def)
  from v(3) obtain la where la: "parseFloat (latitude b) = Fin la"
    by (cases "parseFloat (latitude b)") (simp_all add: in_range_def)
  from v(4) obtain lo where lo: "parseFloat (longitude b) = Fin lo"
    by (cases "parseFloat (longitude b)") (simp_all add: in_range_def)
  have "addSchool b db =
          (\<lparr>status = 201, body = SchoolAdded ''School added successfully'' (next_id db)\<rparr>,
           db\<lparr>rows := rows db @
                 [\<lparr>school_id = next_id db, school_name = n, school_address = a,
                   school_latitude = la, school_longitude = lo, created_at = clock db\<rparr>],
              next_id := next_id db + 1\<rparr>)"
    using assms by (simp add: addSchool_def Let_def insert_school_def)
      (simp add: schoolData_def n a la lo)
  with n a la lo show ?thesis by blast
qed

text \<open>\<^verbatim>\<open>toFixed\<close> at a tie, on a distance, on zero and on \<open>NaN\<close>.\<close>

lemma toFixed_examples:
  "toFixed ts 2 (Fin 0.125) = ''0.13''" "toFixed ts 2 (Fin 1710.2349) = ''1710.23''"
  "toFixed ts 2 (Fin 0) = ''0.00''" "toFixed ts 2 NaN = ''NaN''"
  by (simp_all add: toFixed_def digits_of_small digits_of_big digit_char_def)

subsection \<open>What \<^verbatim>\<open>parseFloat\<close> reads\<close>







subsection \<open>The conversion parameter of \<open>toFixed\<close> is never used\<close>

text \<open>
  On finite arguments \<open>calculateDistance\<close> gives \<open>NaN\<close> or a number in
  \<open>[0, 10\<^sup>2\<^sup>1)\<close>, so that \<^verbatim>\<open>toFixed\<close> never takes the branch of the numbers from
  \<open>10\<^sup>2\<^sup>1\<close> on, and a listing does not depend on the parameter \<open>numToString\<close>.
\<close>

lemma distance_of_a_cases:
  "distance_of_a a = NaN \<or> (\<exists>x. distance_of_a a = Fin x \<and> 0 \<le> x \<and> x < 10 ^ 21)"
proof (cases "0 \<le> a \<and> a \<le> 1")
  case True
  then have q: "0 \<le> atan2 (sqrt a) (sqrt (1 - a))" "atan2 (sqrt a) (sqrt (1 - a)) \<le> pi / 2"
    using atan2_quadrant [of "sqrt a" "sqrt (1 - a)"] by simp_all
  have "6371 * (2 * atan2 (sqrt a) (sqrt (1 - a))) \<le> 6371 * pi"
    using q(2) by simp
  also have "\<dots> < 6371 * 4" using pi_less_4 by simp
  also have "\<dots> < (10::real) ^ 21" by simp
  finally have "6371 * (2 * atan2 (sqrt a) (sqrt (1 - a))) < 10 ^ 21" .
  moreover have "0 \<le> 6371 * (2 * atan2 (sqrt a) (sqrt (1 - a)))"
    using q(1) by simp
  ultimately show ?thesis
    using True by (simp add: distance_of_a_unit)
next
  case False
  then have "distance_of_a a = NaN"
    by (auto simp add: distance_of_a_def js_sub_Fin)
  then show ?thesis by simp
qed

lemma toFixed_numToString_irrelevant:
  assumes "d = NaN \<or> (\<exists>x. d = Fin x \<and> 0 \<le> x \<and> x < 10 ^ 21)"
  shows "toFixed ts f d = toFixed ts' f d"
  using assms by (auto simp add: toFixed_def)

lemma withDistance_numToString_irrelevant:
  "withDistance ts (Fin ulat) (Fin ulon) s = withDistance ts' (Fin ulat) (Fin ulon) s"
  unfolding withDistance_def Let_def calculateDistance_Fin
  using toFixed_numToString_irrelevant [OF distance_of_a_cases, of ts 2 _ ts']
  by simp

lemma listSchools_numToString_irrelevant:
  "listSchools ts q db = listSchools ts' q db"
proof (cases "in_range (- 90) 90 (parseFloat (query_latitude q))
    \<and> in_range (- 180) 180 (parseFloat (query_longitude q))")
  case True
  then obtain ulat ulon where p: "parseFloat (query_latitude q) = Fin ulat"
    "parseFloat (query_longitude q) = Fin ulon"
    by (cases "parseFloat (query_latitude q)"; cases "parseFloat (query_longitude q)")
      (simp_all add: in_range_def)
  have w: "withDistance ts (Fin ulat) (Fin ulon) = withDistance ts' (Fin ulat) (Fin ulon)"
    by (rule ext) (rule withDistance_numToString_irrelevant)
  show ?thesis
    unfolding listSchools_def Let_def p w by (rule refl)
next
  case False
  then have "listSchools ts q db
      = \<lparr>status = 400, body = FailureMessage invalid_coordinates_message\<rparr>"
    "listSchools ts' q db
      = \<lparr>status = 400, body = FailureMessage invalid_coordinates_message\<rparr>"
    by (simp_all add: listSchools_rejected_iff)
  then show ?thesis by simp
qed

section \<open>The claims\<close>

text \<open>
  C3. For every coordinate point \<open>p\<close> the computed distance from \<open>p\<close> to itself is exactly
  \<open>0\<close>, before and after the rounding to two decimals, and so is the \<open>distance\<close> a
  listing attaches to a school whose coordinates are the query's.
\<close>

theorem distance_to_itself_is_zero:
  "calculateDistance (Fin lat) (Fin lon) (Fin lat) (Fin lon) = Fin 0
   \<and> parseFloat (JStr (toFixed ts 2 (calculateDistance (Fin lat) (Fin lon) (Fin lat) (Fin lon))))
       = Fin 0
   \<and> distance (withDistance ts (Fin (school_latitude s)) (Fin (school_longitude s)) s) = Fin 0"
  by (simp only: calculateDistance_same_point rounded_zero distance_withDistance simp_thms)

theorem distance_to_itself_is_zero_witness:
  "calculateDistance (Fin 47.6062) (Fin (- 122.3321)) (Fin 47.6062) (Fin (- 122.3321)) = Fin 0
   \<and> parseFloat (JStr (toFixed integer_part_string 2
        (calculateDistance (Fin 47.6062) (Fin (- 122.3321)) (Fin 47.6062) (Fin (- 122.3321)))))
       = Fin 0
   \<and> distance (withDistance integer_part_string
        (Fin (school_latitude (hd seeded_schools))) (Fin (school_longitude (hd seeded_schools)))
        (hd seeded_schools)) = Fin 0"
  by (rule distance_to_itself_is_zero)






text \<open>
  C6. For every registration input that fails validation the handler answers 400 with the
  validator's error list and performs no insert: the store is returned as it was, so its
  rows and their count are unchanged. For a latitude that converts to a number outside
  \<open>[-90, 90]\<close> (such as 91) the list holds the message that names the latitude range.
\<close>

theorem registration_rejects_invalid_input:
  assumes "validateSchoolData (schoolData b) \<noteq> []"
  shows "addSchool b db
         = (\<lparr>status = 400, body = ValidationErrors (validateSchoolData (schoolData b))\<rparr>, db)
     \<and> rows (snd (addSchool b db)) = rows db
     \<and> length (rows (snd (addSchool b db))) = length (rows db)
     \<and> (\<not> isNaN (parseFloat (latitude b)) \<and> \<not> in_range (- 90) 90 (parseFloat (latitude b))
          \<longrightarrow> ''Latitude must be between -90 and 90 degrees''
                \<in> set (validateSchoolData (schoolData b)))"
  using addSchool_rejected [OF assms, of db]
  by (simp add: validateSchoolData_rules schoolData_fields)

theorem registration_rejects_invalid_input_witness:
  "addSchool \<lparr>name = JStr ''Test School'', address = JStr ''1 Test St'',
              latitude = JNum (Fin 91), longitude = JNum (Fin 10)\<rparr> seeded_database
   = (\<lparr>status = 400,
       body = ValidationErrors [''Latitude must be between -90 and 90 degrees'']\<rparr>,
      seeded_database)
   \<and> length (rows (snd (addSchool \<lparr>name = JStr ''Test School'', address = JStr ''1 Test St'',
              latitude = JNum (Fin 91), longitude = JNum (Fin 10)\<rparr> seeded_database))) = 5"
proof -
  let ?b = "\<lparr>name = JStr ''Test School'', address = JStr ''1 Test St'',
              latitude = JNum (Fin 91), longitude = JNum (Fin 10)\<rparr>"
  have v: "validateSchoolData (schoolData ?b) = [''Latitude must be between -90 and 90 degrees'']"
    by (simp add: validateSchoolData_def schoolData_def Let_def trim_def is_whitespace_def
        js_gt_def)
  then have "validateSchoolData (schoolData ?b) \<noteq> []" by simp
  from registration_rejects_invalid_input [OF this, of seeded_database] show ?thesis
    by (simp add: v) (simp add: seeded_database_def seeded_schools_def)
qed

text \<open>
  C7. For every valid query point, listing against an empty store that answers succeeds:
  the response is 200 with \<open>count = 0\<close> and an empty sequence of schools.
\<close>

theorem listing_of_empty_store:
  assumes "parseFloat (query_latitude q) = Fin ulat" "parseFloat (query_longitude q) = Fin ulon"
    and "- 90 \<le> ulat" "ulat \<le> 90" "- 180 \<le> ulon" "ulon \<le> 180"
    and "online db" and "rows db = []"
  shows "listSchools ts q db = \<lparr>status = 200, body = SchoolList 0 []\<rparr>"
  using listSchools_valid_query [OF assms(1-7), of ts] assms(8)
  by (simp add: js_sort_Nil)

theorem listing_of_empty_store_witness:
  "listSchools integer_part_string \<lparr>query_latitude = JStr ''10'', query_longitude = JNum (Fin 10)\<rparr>
     \<lparr>rows = [], next_id = 1, clock = 0, online = True\<rparr>
   = \<lparr>status = 200, body = SchoolList 0 []\<rparr>"
proof -
  let ?q = "\<lparr>query_latitude = JStr ''10'', query_longitude = JNum (Fin 10)\<rparr>"
  have p: "parseFloat (query_latitude ?q) = Fin 10" "parseFloat (query_longitude ?q) = Fin 10"
    by (simp_all add: parse_defs)
  have r: "- 90 \<le> (10::real)" "(10::real) \<le> 90" "- 180 \<le> (10::real)" "(10::real) \<le> 180"
    by simp_all
  show ?thesis
    by (rule listing_of_empty_store [OF p r]) simp_all
qed

text \<open>
  C9, as amended. The listing rejects a query exactly when registration's validator
  reports a latitude or longitude violation for the same raw values (the same
  \<^verbatim>\<open>parseFloat\<close> conversion and the same inclusive ranges), and it surfaces the failure
  as a 400 response with one fixed message string. The claim as stated, that the failure
  is surfaced as a structured list of reasons, fails: see the counterexample below.
\<close>

theorem listing_rejects_as_registration_with_one_message:
  "(set (validateSchoolData (schoolData b)) \<inter> coordinate_messages \<noteq> {})
   = (listSchools ts \<lparr>query_latitude = latitude b, query_longitude = longitude b\<rparr> db
      = \<lparr>status = 400, body = FailureMessage invalid_coordinates_message\<rparr>)"
  by (simp add: coordinate_errors_iff listSchools_rejected_iff)

theorem listing_rejects_as_registration_with_one_message_witness:
  "(set (validateSchoolData (schoolData \<lparr>name = JStr ''Test School'', address = JStr ''1 Test St'',
        latitude = JStr ''abc'', longitude = JStr ''200''\<rparr>)) \<inter> coordinate_messages \<noteq> {})
   \<and> listSchools integer_part_string
        \<lparr>query_latitude = JStr ''abc'', query_longitude = JStr ''200''\<rparr> seeded_database
      = \<lparr>status = 400, body = FailureMessage invalid_coordinates_message\<rparr>"
proof -
  have p: "parseFloat_string ''abc'' = NaN" "parseFloat_string ''200'' = Fin 200"
    by (simp_all add: parse_defs)
  have l: "listSchools integer_part_string
        \<lparr>query_latitude = JStr ''abc'', query_longitude = JStr ''200''\<rparr> seeded_database
      = \<lparr>status = 400, body = FailureMessage invalid_coordinates_message\<rparr>"
    by (simp add: listSchools_def Let_def p invalid_coordinates_message_def)
  with listing_rejects_as_registration_with_one_message [of "\<lparr>name = JStr ''Test School'', address = JStr ''1 Test St'',
        latitude = JStr ''abc'', longitude = JStr ''200''\<rparr>" integer_part_string seeded_database]
  show ?thesis by simp
qed

text \<open>
  The counterexample to C9 as stated: for the query \<^verbatim>\<open>latitude=abc&longitude=200\<close> the
  validator of the registration gives a list of two reasons, while the listing answers with
  the single message and no list.
\<close>

theorem listing_failure_is_not_a_list_counterexample:
  "listSchools integer_part_string
     \<lparr>query_latitude = JStr ''abc'', query_longitude = JStr ''200''\<rparr> seeded_database
   = \<lparr>status = 400, body = FailureMessage invalid_coordinates_message\<rparr>
   \<and> validateSchoolData (schoolData \<lparr>name = JStr ''Test School'', address = JStr ''1 Test St'',
        latitude = JStr ''abc'', longitude = JStr ''200''\<rparr>)
     = [''Latitude is required and must be a valid number'',
        ''Longitude must be between -180 and 180 degrees'']
   \<and> body (listSchools integer_part_string
        \<lparr>query_latitude = JStr ''abc'', query_longitude = JStr ''200''\<rparr> seeded_database)
     \<noteq> ValidationErrors [''Latitude is required and must be a valid number'',
          ''Longitude must be between -180 and 180 degrees'']"
proof -
  have p: "parseFloat_string ''abc'' = NaN" "parseFloat_string ''200'' = Fin 200"
    by (simp_all add: parse_defs)
  show ?thesis
    by (simp add: listSchools_def validateSchoolData_def schoolData_def Let_def p
        trim_def is_whitespace_def js_gt_def invalid_coordinates_message_def)
qed




end
